theory Spec2Isabelle
  imports Complex_Main "HOL-Library.Multiset"
begin

section \<open>Tensors of frame_level_models.py\<close>

text \<open>
  The models of \<^verbatim>\<open>frame_level_models.py\<close> take \<^verbatim>\<open>model_input\<close>, a
  \<^verbatim>\<open>batch_size x max_frames x num_features\<close> tensor, and \<^verbatim>\<open>num_frames\<close>, one
  integer per video. Every operation that the aggregators below apply works on each video
  of the batch separately, so a video is embedded as the list of its \<^verbatim>\<open>max_frames\<close>
  frames and a frame as the list of its \<^verbatim>\<open>num_features\<close> values. The static sizes
  that the source reads with \<^verbatim>\<open>get_shape()\<close> are explicit arguments.

  Values are real numbers: the arithmetic is that of float32 without rounding and without
  overflow. The one float behaviour that is kept is the division by zero, which raises
  nothing in TensorFlow and fills the result with NaN or Inf: a tensor that would hold
  such an entry is \<open>None\<close>.
\<close>

type_synonym frame = "real list"
type_synonym video = "frame list"

text \<open>\<^verbatim>\<open>frames_sum = tf.reduce_sum(tf.abs(model_input),axis=2)\<close>\<close>

definition frames_sum :: "video \<Rightarrow> real list" where
  "frames_sum v = map (\<lambda>fr. sum_list (map abs fr)) v"

text \<open>
  \<^verbatim>\<open>frames_bool = tf.where(tf.greater(frames_sum, frames_false), frames_true, frames_false)\<close>
  with \<^verbatim>\<open>frames_true\<close> all ones and \<^verbatim>\<open>frames_false\<close> all zeros (lines 256-259,
  344-347 and 465-468 are the same four lines).
\<close>

definition frames_bool :: "video \<Rightarrow> real list" where
  "frames_bool v = map (\<lambda>s. if s > 0 then 1 else 0) (frames_sum v)"

text \<open>
  \<^verbatim>\<open>x / tf.reduce_sum(x, axis=1, keep_dims=True)\<close> on one row. When the sum is zero
  every entry of a row that has entries becomes NaN or Inf.
\<close>

definition div_reduce_sum :: "real list \<Rightarrow> real list option" where
  "div_reduce_sum xs =
     (if xs \<noteq> [] \<and> sum_list xs = 0 then None
      else Some (map (\<lambda>x. x / sum_list xs) xs))"

text \<open>\<^verbatim>\<open>tf.reduce_sum(model_input, axis=[1])\<close>: the sum of the frames, feature by feature.\<close>

definition reduce_sum_frames :: "nat \<Rightarrow> video \<Rightarrow> frame" where
  "reduce_sum_frames feature_size v =
     map (\<lambda>f. sum_list (map (\<lambda>fr. fr ! f) v)) [0..<feature_size]"

text \<open>
  \<^verbatim>\<open>tf.reduce_sum(rows * weights, axis=1)\<close> where \<^verbatim>\<open>rows\<close> has one row of
  \<open>d\<close> values per frame and \<^verbatim>\<open>weights\<close> one value per frame (reshaped to
  \<^verbatim>\<open>[-1, max_frames, 1]\<close> and broadcast).
\<close>

definition weighted_sum :: "nat \<Rightarrow> real list list \<Rightarrow> real list \<Rightarrow> real list" where
  "weighted_sum d rows ws =
     map (\<lambda>c. sum_list (map (\<lambda>(r, w). r ! c * w) (zip rows ws))) [0..<d]"

text \<open>
  \<^verbatim>\<open>tf.nn.xw_plus_b(x, W, b)\<close> on one row \<open>x\<close>, for \<open>W\<close> of shape
  \<^verbatim>\<open>[len(x), n]\<close> and \<open>b\<close> of shape \<^verbatim>\<open>[n]\<close>.
\<close>

definition xw_plus_b :: "nat \<Rightarrow> real list \<Rightarrow> real list list \<Rightarrow> real list \<Rightarrow> real list" where
  "xw_plus_b n x W b =
     map (\<lambda>j. sum_list (map (\<lambda>i. x ! i * W ! i ! j) [0..<length x]) + b ! j) [0..<n]"

text \<open>\<^verbatim>\<open>tf.nn.softmax\<close> normalises along the last axis: here, along one row.\<close>

definition softmax :: "real list \<Rightarrow> real list" where
  "softmax row = map (\<lambda>x. exp x / sum_list (map exp row)) row"

definition sigmoid :: "real \<Rightarrow> real" where
  "sigmoid x = 1 / (1 + exp (- x))"

text \<open>
  The count-normalised average of lines 262-265 (and 72-80, 378-382):
  \<^verbatim>\<open>tf.reduce_sum(model_input, axis=[1]) / denominators\<close>, where every entry of
  \<^verbatim>\<open>denominators\<close> is the video's \<^verbatim>\<open>num_frames\<close> cast to float.
\<close>

definition avg_pooled :: "nat \<Rightarrow> video \<Rightarrow> int \<Rightarrow> frame option" where
  "avg_pooled feature_size v num_frames =
     (if feature_size \<noteq> 0 \<and> num_frames = 0 then None
      else Some (map (\<lambda>s. s / real_of_int num_frames) (reduce_sum_frames feature_size v)))"

section \<open>AttentionModel.create_model\<close>

text \<open>
  \<open>W\<close> has shape \<^verbatim>\<open>[shape[2]*2, 1]\<close> and \<open>b\<close> has shape \<^verbatim>\<open>[1]\<close> (lines 271-272).
  \<^verbatim>\<open>attention_input\<close> has one row per frame of the batch, the frame followed by the
  video's average (line 268).
\<close>

definition attention_input :: "video \<Rightarrow> frame \<Rightarrow> real list list" where
  "attention_input v avg = map (\<lambda>fr. fr @ avg) v"

text \<open>
  Line 273: \<^verbatim>\<open>output = tf.nn.softmax(tf.nn.xw_plus_b(attention_input,W,b))\<close>, a tensor of
  shape \<^verbatim>\<open>[batch*max_frames, 1]\<close>: the softmax runs inside each row of one entry.
\<close>

definition attention_softmax :: "real list list \<Rightarrow> real list \<Rightarrow> real list list \<Rightarrow> real list list" where
  "attention_softmax W b rows = map (\<lambda>x. softmax (xw_plus_b 1 x W b)) rows"

text \<open>Line 274: \<^verbatim>\<open>output = tf.reshape(output,[-1,shape[1]])*frames_bool\<close>.\<close>

definition attention_output ::
  "real list list \<Rightarrow> real list \<Rightarrow> nat \<Rightarrow> video \<Rightarrow> int \<Rightarrow> real list option" where
  "attention_output W b feature_size v num_frames =
     (case avg_pooled feature_size v num_frames of
        None \<Rightarrow> None
      | Some avg \<Rightarrow>
          Some (map (\<lambda>(s, m). s * m)
                  (zip (concat (attention_softmax W b (attention_input v avg))) (frames_bool v))))"

text \<open>Line 275: \<^verbatim>\<open>atten = output/tf.reduce_sum(output, axis=1, keep_dims=True)\<close>.\<close>

definition atten :: "real list list \<Rightarrow> real list \<Rightarrow> nat \<Rightarrow> video \<Rightarrow> int \<Rightarrow> real list option" where
  "atten W b feature_size v num_frames =
     Option.bind (attention_output W b feature_size v num_frames) div_reduce_sum"

text \<open>
  Line 277:
  \<^verbatim>\<open>state = tf.reduce_sum(model_input*tf.reshape(atten,[-1,shape[1],1]),axis=1)\<close>,
  the vector handed to the video-level classifier.
\<close>

definition attention_state :: "real list list \<Rightarrow> real list \<Rightarrow> nat \<Rightarrow> video \<Rightarrow> int \<Rightarrow> frame option" where
  "attention_state W b feature_size v num_frames =
     map_option (weighted_sum feature_size v) (atten W b feature_size v num_frames)"

section \<open>MixLogisticModel.create_model\<close>

text \<open>
  \<^verbatim>\<open>slim.fully_connected(x, n, activation_fn=act)\<close> on one row: weights of shape
  \<^verbatim>\<open>[len(x), n]\<close>, biases of shape \<^verbatim>\<open>[n]\<close>.
\<close>

definition fully_connected ::
  "(real \<Rightarrow> real) \<Rightarrow> nat \<Rightarrow> real list list \<Rightarrow> real list \<Rightarrow> real list \<Rightarrow> real list" where
  "fully_connected act n W b x = map act (xw_plus_b n x W b)"

record mix_params =
  hidden_weights :: "real list list"
  hidden_biases :: "real list"
  output_weights :: "real list list"
  output_biases :: "real list"

text \<open>Line 470: the mask divided by its sum, one weight per frame.\<close>

definition mix_frames_bool :: "video \<Rightarrow> real list option" where
  "mix_frames_bool v = div_reduce_sum (frames_bool v)"

text \<open>Lines 474-476, for one frame.\<close>

definition mix_hidden :: "mix_params \<Rightarrow> nat \<Rightarrow> frame \<Rightarrow> real list" where
  "mix_hidden p feature_size fr =
     fully_connected tanh feature_size (hidden_weights p) (hidden_biases p) fr"

text \<open>Lines 478-480, for one frame: the per-frame prediction.\<close>

definition mix_frame_output :: "mix_params \<Rightarrow> nat \<Rightarrow> nat \<Rightarrow> frame \<Rightarrow> real list" where
  "mix_frame_output p feature_size vocab_size fr =
     fully_connected sigmoid vocab_size (output_weights p) (output_biases p)
       (mix_hidden p feature_size fr)"

text \<open>Line 482.\<close>

definition mix_videofeatures :: "mix_params \<Rightarrow> nat \<Rightarrow> video \<Rightarrow> real list option" where
  "mix_videofeatures p feature_size v =
     map_option (weighted_sum feature_size (map (mix_hidden p feature_size) v))
       (mix_frames_bool v)"

text \<open>Line 483: the frame-weighted sum of the per-frame predictions.\<close>

definition mix_weighted_output :: "mix_params \<Rightarrow> nat \<Rightarrow> nat \<Rightarrow> video \<Rightarrow> real list option" where
  "mix_weighted_output p feature_size vocab_size v =
     map_option
       (weighted_sum vocab_size (map (mix_frame_output p feature_size vocab_size) v))
       (mix_frames_bool v)"

text \<open>Line 484: the same vector divided by its sum over the classes.\<close>

definition mix_output :: "mix_params \<Rightarrow> nat \<Rightarrow> nat \<Rightarrow> video \<Rightarrow> real list option" where
  "mix_output p feature_size vocab_size v =
     Option.bind (mix_weighted_output p feature_size vocab_size v) div_reduce_sum"

text \<open>
  Lines 486-491. The video-level classifier is the function \<open>classifier\<close>, from the
  aggregated vector to the \<^verbatim>\<open>predictions\<close> entry of its result.
\<close>

definition MixLogisticModel ::
  "(real list \<Rightarrow> real list) \<Rightarrow> mix_params \<Rightarrow> nat \<Rightarrow> nat \<Rightarrow> video \<Rightarrow> real list option" where
  "MixLogisticModel classifier p feature_size vocab_size v =
     (case (mix_videofeatures p feature_size v, mix_output p feature_size vocab_size v) of
        (Some videofeatures, Some output) \<Rightarrow>
          Some (map (\<lambda>(r, out). (r + out) / 2) (zip (classifier videofeatures) output))
      | _ \<Rightarrow> None)"

section \<open>FrameLevelLogisticModel.create_model\<close>

text \<open>
  Lines 72-84: the count-normalised average passed through one fully connected layer with
  a sigmoid.
\<close>

definition FrameLevelLogisticModel ::
  "real list list \<Rightarrow> real list \<Rightarrow> nat \<Rightarrow> nat \<Rightarrow> video \<Rightarrow> int \<Rightarrow> real list option" where
  "FrameLevelLogisticModel W b feature_size vocab_size v num_frames =
     map_option (fully_connected sigmoid vocab_size W b) (avg_pooled feature_size v num_frames)"

section \<open>CnnModel.create_model\<close>

text \<open>
  What raises while the model is built: TensorFlow's shape inference on a negative
  dimension, and Python's division by zero.
\<close>

datatype error = NegativeDimension | ZeroDivisionError

definition filter_sizes :: "nat list" where
  "filter_sizes = [1, 3, 5, 10, 20]"

definition num_filters :: "nat list" where
  "num_filters = [400, 300, 200, 100, 100]"

text \<open>
  The loop of lines 334-340, for \<^verbatim>\<open>steps\<close>. The \<^verbatim>\<open>slices\<close> it also fills are read
  only by the block that lines 349-373 disable.
\<close>

definition steps :: "nat list" where
  "steps = map (\<lambda>i. if i = 0 then 1 else filter_sizes ! i div 2) [0..<length filter_sizes]"

text \<open>
  A filter \<open>W\<close> has shape \<^verbatim>\<open>[filter_size, shape[2], 1, num_filter]\<close> and its bias
  \<open>b\<close> has shape \<^verbatim>\<open>[num_filter]\<close> (lines 396-398).
\<close>

type_synonym conv_filter = "real list list list list"

text \<open>The positions of a filter of width \<open>w\<close> that lie wholly inside the sequence.\<close>

fun windows :: "nat \<Rightarrow> 'a list \<Rightarrow> 'a list list" where
  "windows w [] = []"
| "windows w (x # xs) =
     (if w \<le> Suc (length xs) then take w (x # xs) # windows w xs else [])"

text \<open>
  Line 399: \<^verbatim>\<open>tf.nn.conv2d(cnn_input,W,strides=[1, 1, 1, 1],padding="VALID")\<close> on
  \<^verbatim>\<open>cnn_input\<close> of shape \<^verbatim>\<open>[batch, max_frames, shape[2], 1]\<close>. The filter spans
  the whole feature axis, so the result has one column; shape inference raises when the
  filter is longer than the frame axis.
\<close>

definition conv2d_valid ::
  "nat \<Rightarrow> nat \<Rightarrow> nat \<Rightarrow> conv_filter \<Rightarrow> video \<Rightarrow> error + real list list" where
  "conv2d_valid feature_size filter_size num_filter W v =
     (if length v < filter_size then Inl NegativeDimension
      else Inr (map (\<lambda>win. map (\<lambda>c.
                  sum_list (map (\<lambda>dt.
                    sum_list (map (\<lambda>f. win ! dt ! f * W ! dt ! f ! 0 ! c) [0..<feature_size]))
                    [0..<filter_size]))
                  [0..<num_filter])
                (windows filter_size v)))"

text \<open>Line 401: \<^verbatim>\<open>h = tf.tanh(tf.nn.bias_add(conv, b))\<close>, reshaped by line 404.\<close>

definition conv_tanh :: "nat \<Rightarrow> real list \<Rightarrow> real list list \<Rightarrow> real list list" where
  "conv_tanh num_filter b conv = map (\<lambda>row. map (\<lambda>c. tanh (row ! c + b ! c)) [0..<num_filter]) conv"

text \<open>
  Lines 406-407: the mask cut to the first \<^verbatim>\<open>h_shape[1]\<close> slots and divided by its
  own sum.
\<close>

definition cnn_frame_bool :: "nat \<Rightarrow> video \<Rightarrow> real list option" where
  "cnn_frame_bool h_len v = div_reduce_sum (take h_len (frames_bool v))"

text \<open>One pass of the loop body, lines 396-409.\<close>

definition conv_maxpool ::
  "nat \<Rightarrow> nat \<Rightarrow> nat \<Rightarrow> conv_filter \<times> real list \<Rightarrow> video \<Rightarrow> error + real list option" where
  "conv_maxpool feature_size filter_size num_filter Wb v =
     (case conv2d_valid feature_size filter_size num_filter (fst Wb) v of
        Inl e \<Rightarrow> Inl e
      | Inr conv \<Rightarrow>
          (let h_out = conv_tanh num_filter (snd Wb) conv
           in Inr (map_option (weighted_sum num_filter h_out)
                     (cnn_frame_bool (length h_out) v))))"

text \<open>
  The loop of line 393 over \<^verbatim>\<open>zip(filter_sizes, steps, num_filters)\<close>; each pass makes
  its own \<open>W\<close> and \<open>b\<close>.
\<close>

fun pooled_outputs ::
  "nat \<Rightarrow> video \<Rightarrow> (nat \<times> nat \<times> nat \<times> conv_filter \<times> real list) list \<Rightarrow>
     error + real list option list" where
  "pooled_outputs feature_size v [] = Inr []"
| "pooled_outputs feature_size v ((filter_size, step, num_filter, Wb) # rest) =
     (case conv_maxpool feature_size filter_size num_filter Wb v of
        Inl e \<Rightarrow> Inl e
      | Inr pooled \<Rightarrow>
          (case pooled_outputs feature_size v rest of
             Inl e \<Rightarrow> Inl e
           | Inr ps \<Rightarrow> Inr (pooled # ps)))"

text \<open>Line 416: \<^verbatim>\<open>h_pool = tf.concat(pooled_outputs,1)\<close>.\<close>

fun concat_pooled :: "real list option list \<Rightarrow> real list option" where
  "concat_pooled [] = Some []"
| "concat_pooled (p # ps) =
     (case (p, concat_pooled ps) of
        (Some x, Some xs) \<Rightarrow> Some (x @ xs)
      | _ \<Rightarrow> None)"

text \<open>
  Lines 329-430: \<^verbatim>\<open>h_drop\<close>, the vector handed to the video-level classifier. The
  average of lines 378-382 is computed and not used.
\<close>

definition CnnModel_h_drop ::
  "(conv_filter \<times> real list) list \<Rightarrow> nat \<Rightarrow> video \<Rightarrow> error + real list option" where
  "CnnModel_h_drop params feature_size v =
     (case pooled_outputs feature_size v (zip filter_sizes (zip steps (zip num_filters params))) of
        Inl e \<Rightarrow> Inl e
      | Inr ps \<Rightarrow> Inr (concat_pooled ps))"

text \<open>The denominator of line 407 for every filter width, when the convolutions fit.\<close>

definition cnn_denominators :: "video \<Rightarrow> real list" where
  "cnn_denominators v =
     map (\<lambda>filter_size. sum_list (take (length (windows filter_size v)) (frames_bool v)))
       filter_sizes"

section \<open>DbofModel.create_model\<close>

text \<open>The values an optional argument of \<^verbatim>\<open>create_model\<close> can hold, and Python's truth test.\<close>

datatype pyval = PyNone | PyBool bool | PyInt int

fun truthy :: "pyval \<Rightarrow> bool" where
  "truthy PyNone = False"
| "truthy (PyBool b) = b"
| "truthy (PyInt i) = (i \<noteq> 0)"

definition py_or :: "pyval \<Rightarrow> pyval \<Rightarrow> pyval" where
  "py_or a b = (if truthy a then a else b)"

record dbof_flags =
  flag_iterations :: int
  flag_dbof_add_batch_norm :: bool
  flag_sample_random_frames :: bool
  flag_dbof_cluster_size :: int
  flag_dbof_hidden_size :: int

record dbof_args =
  arg_iterations :: pyval
  arg_add_batch_norm :: pyval
  arg_sample_random_frames :: pyval
  arg_cluster_size :: pyval
  arg_hidden_size :: pyval

record dbof_locals =
  iterations :: pyval
  add_batch_norm :: pyval
  random_frames :: pyval
  cluster_size :: pyval
  hidden1_size :: pyval

text \<open>Lines 120-124.\<close>

definition dbof_resolve :: "dbof_flags \<Rightarrow> dbof_args \<Rightarrow> dbof_locals" where
  "dbof_resolve FLAGS args =
     \<lparr> iterations = py_or (arg_iterations args) (PyInt (flag_iterations FLAGS)),
       add_batch_norm = py_or (arg_add_batch_norm args) (PyBool (flag_dbof_add_batch_norm FLAGS)),
       random_frames =
         py_or (arg_sample_random_frames args) (PyBool (flag_sample_random_frames FLAGS)),
       cluster_size = py_or (arg_cluster_size args) (PyInt (flag_dbof_cluster_size FLAGS)),
       hidden1_size = py_or (arg_hidden_size args) (PyInt (flag_dbof_hidden_size FLAGS)) \<rparr>"

datatype sampler = SampleRandomFrames | SampleRandomSequence

text \<open>The test of line 127.\<close>

definition dbof_sampler :: "dbof_locals \<Rightarrow> sampler" where
  "dbof_sampler l = (if truthy (random_frames l) then SampleRandomFrames else SampleRandomSequence)"

text \<open>The test of lines 138, 151 and 175.\<close>

definition dbof_batch_norm :: "dbof_locals \<Rightarrow> bool" where
  "dbof_batch_norm l = truthy (add_batch_norm l)"

text \<open>
  A call \<^verbatim>\<open>tf.Variable(tf.random_normal(shape, stddev=s))\<close>: the shape, the mean (the
  default, 0.0) and the standard deviation of the Gaussian the variable is drawn from.
\<close>

record random_normal =
  rn_shape :: "nat list"
  rn_mean :: real
  rn_stddev :: real

text \<open>\<^verbatim>\<open>1 / math.sqrt(n)\<close>: Python raises on the division by 0.0.\<close>

definition inv_sqrt :: "nat \<Rightarrow> error + real" where
  "inv_sqrt n = (if n = 0 then Inl ZeroDivisionError else Inr (1 / sqrt (real n)))"

text \<open>
  The variables that lines 146-187 create with \<^verbatim>\<open>tf.random_normal\<close>, in the order of
  the source, by name. The biases exist only without batch normalisation.
\<close>

definition dbof_variables ::
  "bool \<Rightarrow> nat \<Rightarrow> nat \<Rightarrow> nat \<Rightarrow> error + (string \<times> random_normal) list" where
  "dbof_variables add_bn feature_size cluster_sz hidden1_sz =
     (case inv_sqrt feature_size of
        Inl e \<Rightarrow> Inl e
      | Inr sf \<Rightarrow>
          (let cluster =
                 (''cluster_weights'',
                    \<lparr>rn_shape = [feature_size, cluster_sz], rn_mean = 0, rn_stddev = sf\<rparr>) #
                 (if add_bn then []
                  else [(''cluster_biases'',
                           \<lparr>rn_shape = [cluster_sz], rn_mean = 0, rn_stddev = sf\<rparr>)])
           in case inv_sqrt cluster_sz of
                Inl e \<Rightarrow> Inl e
              | Inr sc \<Rightarrow>
                  Inr (cluster @
                       (''hidden1_weights'',
                          \<lparr>rn_shape = [cluster_sz, hidden1_sz], rn_mean = 0, rn_stddev = sc\<rparr>) #
                       (if add_bn then []
                        else [(''hidden1_biases'',
                                 \<lparr>rn_shape = [hidden1_sz], rn_mean = 0, rn_stddev = 0.01\<rparr>)]))))"

text \<open>
  Modelled from the spec: \<^verbatim>\<open>utils.SampleRandomFrames\<close> and
  \<^verbatim>\<open>utils.SampleRandomSequence\<close>, which lines 128 and 131 call, are defined in
  \<^verbatim>\<open>model_utils.py\<close>, which is not among the sources. Section 4.2 of the spec gives
  their contract. Independent sampling draws \<open>k\<close> indices independently and uniformly
  from \<open>[0, frame_count)\<close>, with replacement. Contiguous sampling draws one start offset
  uniformly from \<open>[0, frame_count - k]\<close> (0 if \<open>frame_count \<le> k\<close>) and takes the block
  of \<open>k\<close> frames from there, never reading beyond index \<open>frame_count - 1\<close> and
  repeating when \<open>frame_count < k\<close>. The spec does not say which frame is repeated;
  here it is the last real one, and no statement below depends on that choice beyond the
  bound on the indices. A uniform draw is a number \<open>u\<close> with \<open>0 \<le> u < 1\<close>,
  scaled to the range and rounded down; the draws are arguments.
\<close>

definition SampleRandomFrames_index :: "nat \<Rightarrow> nat \<Rightarrow> (nat \<Rightarrow> real) \<Rightarrow> nat list" where
  "SampleRandomFrames_index frame_count k draw =
     map (\<lambda>j. nat \<lfloor>draw j * real frame_count\<rfloor>) [0..<k]"

definition SampleRandomSequence_index :: "nat \<Rightarrow> nat \<Rightarrow> real \<Rightarrow> nat list" where
  "SampleRandomSequence_index frame_count k u =
     (let start = (if frame_count \<le> k then 0
                   else nat \<lfloor>u * real (frame_count - k + 1)\<rfloor>)
      in map (\<lambda>j. min (start + j) (frame_count - 1)) [0..<k])"

definition gather :: "video \<Rightarrow> nat list \<Rightarrow> video" where
  "gather v index = map (\<lambda>i. v ! i) index"

text \<open>
  Lines 127-132: the sampled \<^verbatim>\<open>model_input\<close>, the only tensor that the rest of
  \<^verbatim>\<open>DbofModel.create_model\<close> reads.
\<close>

definition DbofModel_input ::
  "sampler \<Rightarrow> nat \<Rightarrow> (nat \<Rightarrow> real) \<Rightarrow> real \<Rightarrow> video \<Rightarrow> nat \<Rightarrow> video" where
  "DbofModel_input s k draw u v frame_count =
     (case s of
        SampleRandomFrames \<Rightarrow> gather v (SampleRandomFrames_index frame_count k draw)
      | SampleRandomSequence \<Rightarrow> gather v (SampleRandomSequence_index frame_count k u))"

section \<open>LstmModel.create_model\<close>

text \<open>
  Modelled from the spec: \<^verbatim>\<open>tf.nn.dynamic_rnn\<close> (line 228) is TensorFlow's and not
  among the sources. Section 4.4 of the spec: the cells process the full padded frame
  sequence with the real frame count supplied, so that the recurrence stops updating the
  state past the video's true length, and the output is the final state. The stacked cell
  of lines 219-225 is the step function \<open>cell\<close>; \<open>t\<close> is the position of the next
  frame.
\<close>

fun dynamic_rnn :: "('s \<Rightarrow> frame \<Rightarrow> 's) \<Rightarrow> int \<Rightarrow> nat \<Rightarrow> 's \<Rightarrow> video \<Rightarrow> 's" where
  "dynamic_rnn cell sequence_length t state [] = state"
| "dynamic_rnn cell sequence_length t state (x # xs) =
     dynamic_rnn cell sequence_length (Suc t)
       (if int t < sequence_length then cell state x else state) xs"

text \<open>Lines 227-230: \<^verbatim>\<open>state\<close>, the vector handed to the video-level classifier.\<close>

definition LstmModel_state :: "('s \<Rightarrow> frame \<Rightarrow> 's) \<Rightarrow> 's \<Rightarrow> video \<Rightarrow> int \<Rightarrow> 's" where
  "LstmModel_state stacked_lstm zero_state v num_frames =
     dynamic_rnn stacked_lstm num_frames 0 zero_state v"

section \<open>The attention weights as the spec words them\<close>

text \<open>
  Section 4.5 of the spec: each augmented frame vector goes through one linear map to a
  scalar logit, a softmax is applied across the frame axis, the result is zeroed at the
  padding positions with the non-zero mask and renormalised. This definition follows those
  words, for comparison with \<open>atten\<close>, which follows the source.
\<close>

definition spec_atten :: "real list list \<Rightarrow> real list \<Rightarrow> nat \<Rightarrow> video \<Rightarrow> int \<Rightarrow> real list option" where
  "spec_atten W b feature_size v num_frames =
     (case avg_pooled feature_size v num_frames of
        None \<Rightarrow> None
      | Some avg \<Rightarrow>
          div_reduce_sum
            (map (\<lambda>(s, m). s * m)
               (zip (softmax (concat (map (\<lambda>x. xw_plus_b 1 x W b) (attention_input v avg))))
                    (frames_bool v))))"

definition spec_attention_state ::
  "real list list \<Rightarrow> real list \<Rightarrow> nat \<Rightarrow> video \<Rightarrow> int \<Rightarrow> frame option" where
  "spec_attention_state W b feature_size v num_frames =
     map_option (weighted_sum feature_size v) (spec_atten W b feature_size v num_frames)"

section \<open>Auxiliary facts\<close>

subsection \<open>Sums, the mask and its normalisation\<close>

lemma sum_abs_nonneg: "0 \<le> sum_list (map abs (fr::real list))"
  by (induction fr) auto

lemma sum_list_divide_const: "sum_list (map (\<lambda>x. x / c) xs) = sum_list xs / (c::real)"
  by (induction xs) (auto simp: add_divide_distrib)

lemma sum_list_zero: "(\<forall>x\<in>set xs. g x = 0) \<Longrightarrow> sum_list (map g xs) = (0::real)"
  by (induction xs) auto

lemma length_frames_bool: "length (frames_bool v) = length v"
  by (simp add: frames_bool_def frames_sum_def)

lemma frames_bool_nth:
  "i < length v \<Longrightarrow> frames_bool v ! i = (if sum_list (map abs (v ! i)) \<noteq> 0 then 1 else 0)"
  using sum_abs_nonneg[of "v ! i"] by (auto simp: frames_bool_def frames_sum_def)

lemma frames_bool_conv:
  "frames_bool v = map (\<lambda>fr. if sum_list (map abs fr) \<noteq> 0 then 1 else 0) v"
  by (rule nth_equalityI) (auto simp: length_frames_bool frames_bool_nth)

lemma sum_frames_bool:
  "sum_list (frames_bool v) = real (length (filter (\<lambda>fr. sum_list (map abs fr) \<noteq> 0) v))"
  unfolding frames_bool_conv by (induction v) auto

lemma take_frames_bool: "take h (frames_bool v) = frames_bool (take h v)"
  by (simp add: frames_bool_def frames_sum_def take_map)

lemma sum_frames_bool_take:
  "sum_list (take h (frames_bool v)) = real (length (filter (\<lambda>fr. sum_list (map abs fr) \<noteq> 0) (take h v)))"
  by (simp add: take_frames_bool sum_frames_bool)

lemma sum_frames_bool_zero_iff:
  "sum_list (frames_bool v) = 0 \<longleftrightarrow> (\<forall>fr\<in>set v. sum_list (map abs fr) = 0)"
  by (simp add: sum_frames_bool filter_empty_conv)

lemma sum_over_active:
  "sum_list (map snd (filter (\<lambda>(fr, x). sum_list (map abs fr) \<noteq> 0)
       (zip v (map (\<lambda>m. m / c) (frames_bool v))))) =
   sum_list (map (\<lambda>m. m / c) (frames_bool v))"
  unfolding frames_bool_conv by (induction v) auto

lemma div_reduce_sum_mask:
  assumes "\<exists>fr\<in>set u. sum_list (map abs fr) \<noteq> 0"
  shows "div_reduce_sum (frames_bool u) =
           Some (map (\<lambda>m. m / sum_list (frames_bool u)) (frames_bool u)) \<and>
         sum_list (map (\<lambda>m. m / sum_list (frames_bool u)) (frames_bool u)) = 1"
proof -
  have nz: "sum_list (frames_bool u) \<noteq> 0"
    using assms by (simp add: sum_frames_bool_zero_iff)
  then show ?thesis by (simp add: div_reduce_sum_def sum_list_divide_const)
qed

lemma div_reduce_sum_no_active:
  assumes "u \<noteq> []" "\<forall>fr\<in>set u. sum_list (map abs fr) = 0"
  shows "div_reduce_sum (frames_bool u) = None"
proof -
  have "frames_bool u \<noteq> []" using assms(1) length_frames_bool[of u] by (metis length_0_conv)
  moreover have "sum_list (frames_bool u) = 0" using assms(2) by (simp add: sum_frames_bool_zero_iff)
  ultimately show ?thesis by (simp add: div_reduce_sum_def)
qed

lemma div_reduce_sum_uniform:
  "div_reduce_sum (frames_bool v) =
     (if v \<noteq> [] \<and> (\<forall>fr\<in>set v. sum_list (map abs fr) = 0) then None
      else Some (map (\<lambda>fr. if sum_list (map abs fr) \<noteq> 0
                           then 1 / real (length (filter (\<lambda>fr. sum_list (map abs fr) \<noteq> 0) v))
                           else 0) v))"
proof -
  consider "v = []" | "v \<noteq> []" "\<forall>fr\<in>set v. sum_list (map abs fr) = 0"
    | "\<exists>fr\<in>set v. sum_list (map abs fr) \<noteq> 0" by blast
  then show ?thesis
  proof cases
    case 1
    then show ?thesis by (simp add: div_reduce_sum_def frames_bool_def frames_sum_def)
  next
    case 2
    then show ?thesis using div_reduce_sum_no_active[of v] by simp
  next
    case 3
    have "map (\<lambda>m. m / c) (frames_bool v) =
          map (\<lambda>fr. if sum_list (map abs fr) \<noteq> 0 then 1 / c else 0) v" for c
      unfolding frames_bool_conv by simp
    with div_reduce_sum_mask[OF 3] 3 show ?thesis by (auto simp: sum_frames_bool)
  qed
qed

lemma length_weighted_sum: "length (weighted_sum d rows ws) = d"
  by (simp add: weighted_sum_def)

lemma weighted_sum_mask:
  "weighted_sum d v (map (\<lambda>m. m / c) (frames_bool v)) =
     map (\<lambda>f. sum_list (map (\<lambda>fr. fr ! f) (filter (\<lambda>fr. sum_list (map abs fr) \<noteq> 0) v)) / c) [0..<d]"
proof -
  have "sum_list (map (\<lambda>(r, w). r ! f * w) (zip v (map (\<lambda>m. m / c) (frames_bool v)))) =
        sum_list (map (\<lambda>fr. fr ! f) (filter (\<lambda>fr. sum_list (map abs fr) \<noteq> 0) v)) / c" for f
    unfolding frames_bool_conv by (induction v) (auto simp: add_divide_distrib)
  then show ?thesis by (simp add: weighted_sum_def)
qed

lemma weighted_sum_frames:
  "weighted_sum d (map h v) (map (\<lambda>m. m / c) (frames_bool v)) =
     map (\<lambda>j. sum_list (map (\<lambda>fr. h fr ! j * ((if sum_list (map abs fr) \<noteq> 0 then 1 else 0) / c)) v)) [0..<d]"
proof -
  have "zip (map h v) (map (\<lambda>m. m / c) (frames_bool v)) =
        map (\<lambda>fr. (h fr, (if sum_list (map abs fr) \<noteq> 0 then 1 else 0) / c)) v"
    unfolding frames_bool_conv by (induction v) auto
  then show ?thesis by (simp add: weighted_sum_def comp_def)
qed

lemma weighted_sum_replicate:
  assumes "0 < L" "length r = d"
  shows "weighted_sum d (replicate L r) (replicate L (1 / real L)) = r"
proof -
  have "sum_list (map (\<lambda>(r, w). r ! c * w) (zip (replicate L r) (replicate L (1 / real L)))) = r ! c" for c
  proof -
    have "zip (replicate L r) (replicate L (1 / real L)) = replicate L (r, 1 / real L)"
      by (simp add: zip_replicate)
    then show ?thesis using assms(1) by (simp add: sum_list_replicate)
  qed
  then have "weighted_sum d (replicate L r) (replicate L (1 / real L)) = map (\<lambda>c. r ! c) [0..<d]"
    by (simp add: weighted_sum_def)
  also have "\<dots> = r" using assms(2) map_nth[of r] by auto
  finally show ?thesis .
qed

lemma last_weighted_sum: "0 < d \<Longrightarrow> last (weighted_sum d rows ws) = sum_list (map (\<lambda>(r, w). r ! (d - 1) * w) (zip rows ws))"
  by (simp add: weighted_sum_def last_map last_upt)

lemma length_fully_connected: "length (fully_connected act n W b x) = n"
  by (simp add: fully_connected_def xw_plus_b_def)

subsection \<open>The attention weights\<close>

lemma softmax_single: "softmax (xw_plus_b (Suc 0) x W b) = [1]"
  by (simp add: softmax_def xw_plus_b_def)

lemma attention_softmax_ones: "concat (attention_softmax W b rows) = replicate (length rows) 1"
  by (induction rows) (auto simp: attention_softmax_def softmax_single)

lemma attention_softmax_eq: "attention_softmax W b rows = replicate (length rows) [1]"
  by (induction rows) (auto simp: attention_softmax_def softmax_single)

lemma zip_ones: "length ms = n \<Longrightarrow> map (\<lambda>(s, m). s * m) (zip (replicate n (1::real)) ms) = ms"
  by (induction ms arbitrary: n) auto

lemma attention_output_eq:
  "attention_output W b fs v n = (if fs \<noteq> 0 \<and> n = 0 then None else Some (frames_bool v))"
  by (auto simp: attention_output_def avg_pooled_def attention_softmax_ones attention_input_def zip_ones length_frames_bool)

lemma atten_eq:
  "atten W b fs v n = (if fs \<noteq> 0 \<and> n = 0 then None else div_reduce_sum (frames_bool v))"
  by (simp add: atten_def attention_output_eq)

lemma atten_uniform:
  "atten W b fs v n =
     (if (fs \<noteq> 0 \<and> n = 0) \<or> (v \<noteq> [] \<and> (\<forall>fr\<in>set v. sum_list (map abs fr) = 0)) then None
      else Some (map (\<lambda>fr. if sum_list (map abs fr) \<noteq> 0
                           then 1 / real (length (filter (\<lambda>fr. sum_list (map abs fr) \<noteq> 0) v))
                           else 0) v))"
  unfolding atten_eq div_reduce_sum_uniform by simp

lemma attention_state_eq:
  "attention_state W b fs v n =
     (if (fs \<noteq> 0 \<and> n = 0) \<or> (v \<noteq> [] \<and> (\<forall>fr\<in>set v. sum_list (map abs fr) = 0)) then None
      else Some (map (\<lambda>f. sum_list (map (\<lambda>fr. fr ! f) (filter (\<lambda>fr. sum_list (map abs fr) \<noteq> 0) v))
                   / real (length (filter (\<lambda>fr. sum_list (map abs fr) \<noteq> 0) v))) [0..<fs]))"
proof -
  have nil: "frames_bool v = [] \<longleftrightarrow> v = []"
    using length_frames_bool[of v] by (metis length_0_conv)
  have st: "attention_state W b fs v n =
      (if (fs \<noteq> 0 \<and> n = 0) \<or> (v \<noteq> [] \<and> (\<forall>fr\<in>set v. sum_list (map abs fr) = 0)) then None
       else Some (weighted_sum fs v (map (\<lambda>m. m / sum_list (frames_bool v)) (frames_bool v))))"
    unfolding attention_state_def atten_eq div_reduce_sum_def nil sum_frames_bool_zero_iff
    by simp
  show ?thesis unfolding st weighted_sum_mask sum_frames_bool ..
qed

subsection \<open>Permuting the frames of a video\<close>

lemma sum_list_mset_cong:
  "mset xs = mset ys \<Longrightarrow> sum_list (map g xs) = sum_list (map (g :: 'a \<Rightarrow> real) ys)"
  by (metis mset_map sum_mset_sum_list)

lemma length_filter_mset_cong:
  "mset xs = mset ys \<Longrightarrow> length (filter P xs) = length (filter P ys)"
  by (metis mset_filter size_mset)

lemma nil_mset_cong: "mset xs = mset ys \<Longrightarrow> xs = [] \<longleftrightarrow> ys = []"
  by (metis mset_zero_iff)

lemma reduce_sum_frames_perm:
  "mset v' = mset v \<Longrightarrow> reduce_sum_frames fs v' = reduce_sum_frames fs v"
  unfolding reduce_sum_frames_def using sum_list_mset_cong[of v' v] by simp

lemma avg_pooled_perm:
  "mset v' = mset v \<Longrightarrow> avg_pooled fs v' n = avg_pooled fs v n"
  using reduce_sum_frames_perm[of v' v fs] by (auto simp: avg_pooled_def)

lemma sum_frames_bool_perm:
  "mset v' = mset v \<Longrightarrow> sum_list (frames_bool v') = sum_list (frames_bool v)"
  using length_filter_mset_cong[of v' v] by (simp add: sum_frames_bool)

lemma masked_mean_perm:
  assumes "mset v' = mset v"
  shows "map_option (weighted_sum d (map h v')) (div_reduce_sum (frames_bool v')) =
         map_option (weighted_sum d (map h v)) (div_reduce_sum (frames_bool v))"
proof -
  have nil: "frames_bool u = [] \<longleftrightarrow> u = []" for u
    using length_frames_bool[of u] by (metis length_0_conv)
  have e: "map_option (weighted_sum d (map h u)) (div_reduce_sum (frames_bool u)) =
      (if u \<noteq> [] \<and> sum_list (frames_bool u) = 0 then None
       else Some (map (\<lambda>j. sum_list (map (\<lambda>fr. h fr ! j *
               ((if sum_list (map abs fr) \<noteq> 0 then 1 else 0) / sum_list (frames_bool u))) u)) [0..<d]))" for u
  proof (cases "u = []")
    case True
    then show ?thesis by (simp add: div_reduce_sum_def frames_bool_def frames_sum_def weighted_sum_def)
  next
    case False
    then show ?thesis by (simp add: div_reduce_sum_def nil weighted_sum_frames)
  qed
  have s: "sum_list (map g v') = sum_list (map g v)" for g :: "frame \<Rightarrow> real"
    by (rule sum_list_mset_cong[OF assms])
  show ?thesis
    unfolding e sum_frames_bool_perm[OF assms] nil_mset_cong[OF assms] s ..
qed

lemma attention_state_perm:
  assumes "mset v' = mset v"
  shows "attention_state W b fs v' n = attention_state W b fs v n"
  using masked_mean_perm[OF assms, of _ "\<lambda>x. x"]
  by (simp add: attention_state_def atten_eq)

lemma mix_videofeatures_perm:
  "mset v' = mset v \<Longrightarrow> mix_videofeatures p fs v' = mix_videofeatures p fs v"
  unfolding mix_videofeatures_def mix_frames_bool_def by (rule masked_mean_perm)

lemma mix_weighted_output_perm:
  "mset v' = mset v \<Longrightarrow> mix_weighted_output p fs vocab v' = mix_weighted_output p fs vocab v"
  unfolding mix_weighted_output_def mix_frames_bool_def by (rule masked_mean_perm)

lemma MixLogisticModel_perm:
  "mset v' = mset v \<Longrightarrow> MixLogisticModel cl p fs vocab v' = MixLogisticModel cl p fs vocab v"
  using mix_videofeatures_perm[of v' v p fs] mix_weighted_output_perm[of v' v p fs vocab]
  by (simp add: MixLogisticModel_def mix_output_def)

lemma FrameLevelLogisticModel_perm:
  "mset v' = mset v \<Longrightarrow> FrameLevelLogisticModel W b fs vocab v' n = FrameLevelLogisticModel W b fs vocab v n"
  using avg_pooled_perm[of v' v fs n] by (simp add: FrameLevelLogisticModel_def)

lemma padding_perm: "mset pad = mset (drop k v) \<Longrightarrow> mset (take k v @ pad) = mset v"
  by (metis append_take_drop_id mset_append)

subsection \<open>The recurrence past the frame count\<close>

lemma dynamic_rnn_past: "n \<le> int t \<Longrightarrow> dynamic_rnn cell n t s xs = s"
  by (induction xs arbitrary: t) auto

lemma dynamic_rnn_append:
  "dynamic_rnn cell n t s (xs @ ys) = dynamic_rnn cell n (t + length xs) (dynamic_rnn cell n t s xs) ys"
  by (induction xs arbitrary: t s) auto

lemma lstm_padding:
  assumes "mset pad = mset (drop (nat n) v)"
  shows "LstmModel_state cell z (take (nat n) v @ pad) n = LstmModel_state cell z v n"
proof (cases "nat n \<le> length v")
  case True
  then have len: "length (take (nat n) v) = nat n" by simp
  have "n \<le> int (0 + nat n)" by simp
  then have a: "dynamic_rnn cell n (0 + nat n) s ys = s" for s ys
    by (rule dynamic_rnn_past)
  have "LstmModel_state cell z (take (nat n) v @ pad) n = dynamic_rnn cell n 0 z (take (nat n) v)"
    unfolding LstmModel_state_def dynamic_rnn_append len a ..
  also have "\<dots> = dynamic_rnn cell n 0 z (take (nat n) v @ drop (nat n) v)"
    unfolding dynamic_rnn_append len a ..
  finally show ?thesis by (simp add: LstmModel_state_def)
next
  case False
  then have "drop (nat n) v = []" by simp
  with assms have "pad = []" by simp
  with False show ?thesis by simp
qed

subsection \<open>The sampled indices\<close>

lemma floor_scale_lt:
  assumes "0 \<le> u" "u < 1" "0 < m"
  shows "nat \<lfloor>u * real m\<rfloor> < m"
proof -
  have "u * real m < real m" using assms by simp
  moreover have "0 \<le> u * real m" using assms by simp
  ultimately show ?thesis
    by (metis floor_less_iff nat_less_iff of_int_of_nat_eq zero_le_floor)
qed


lemma srf_bound:
  assumes "\<forall>j<k. 0 \<le> draw j \<and> draw j < 1" "0 < fc"
  shows "length (SampleRandomFrames_index fc k draw) = k \<and> (\<forall>i\<in>set (SampleRandomFrames_index fc k draw). i < fc)"
  using assms floor_scale_lt by (auto simp: SampleRandomFrames_index_def)

lemma srs_bound:
  assumes "0 < fc"
  shows "length (SampleRandomSequence_index fc k u) = k \<and> (\<forall>i\<in>set (SampleRandomSequence_index fc k u). i < fc)"
  using assms by (auto simp: SampleRandomSequence_index_def Let_def)



lemma gather_padding:
  assumes "\<forall>i\<in>set idx. i < k" "k \<le> length v"
  shows "gather (take k v @ pad) idx = gather v idx"
  using assms by (auto simp: gather_def nth_append)

lemma DbofModel_input_padding:
  assumes "0 < fc" "fc \<le> length v" "\<forall>j<k. 0 \<le> draw j \<and> draw j < 1"
  shows "DbofModel_input s k draw u (take fc v @ pad) fc = DbofModel_input s k draw u v fc"
proof (cases s)
  case SampleRandomFrames
  have "\<forall>i\<in>set (SampleRandomFrames_index fc k draw). i < fc"
    using srf_bound[OF assms(3,1)] by blast
  then show ?thesis using assms(2) by (simp add: DbofModel_input_def SampleRandomFrames gather_padding)
next
  case SampleRandomSequence
  have "\<forall>i\<in>set (SampleRandomSequence_index fc k u). i < fc"
    using srs_bound[OF assms(1)] by blast
  then show ?thesis using assms(2) by (simp add: DbofModel_input_def SampleRandomSequence gather_padding)
qed

subsection \<open>Windows, convolutions and the pooled vector\<close>

lemma length_windows: "1 \<le> w \<Longrightarrow> length (windows w xs) = Suc (length xs) - w"
  by (induction xs) auto

lemma windows_short: "length xs < w \<Longrightarrow> windows w xs = []"
  by (cases xs) auto

lemma windows_whole: "0 < length v \<Longrightarrow> windows (length v) v = [v]"
  by (cases v) (auto simp: windows_short)

lemma length_conv_tanh: "length (conv_tanh nf b conv) = length conv"
  by (simp add: conv_tanh_def)

lemma steps_eval: "steps = [1, 1, 2, 5, 10]"
  by (simp add: steps_def filter_sizes_def upt_rec)

lemma conv2d_valid_length:
  assumes "1 \<le> w" "w \<le> length v"
  shows "\<exists>conv. conv2d_valid fs w nf W v = Inr conv \<and> int (length conv) = int (length v) - int w + 1"
  using assms by (auto simp: conv2d_valid_def length_windows)

lemma conv_maxpool_length:
  "conv_maxpool fs w nf Wb v = Inr (Some out) \<Longrightarrow> length out = nf"
  by (auto simp: conv_maxpool_def Let_def length_weighted_sum split: sum.splits)

lemma cnn_frame_bool_Some:
  assumes "\<exists>fr\<in>set (take h v). sum_list (map abs fr) \<noteq> 0"
  shows "\<exists>w. cnn_frame_bool h v = Some w"
  using assms by (auto simp: cnn_frame_bool_def div_reduce_sum_def sum_frames_bool_take filter_empty_conv)

lemma conv_maxpool_total:
  assumes "1 \<le> w" "w \<le> length v" "\<exists>fr\<in>set (take (Suc (length v) - w) v). sum_list (map abs fr) \<noteq> 0"
  shows "\<exists>out. conv_maxpool fs w nf Wb v = Inr (Some out)"
proof -
  have "length (windows w v) = Suc (length v) - w" using assms(1) by (rule length_windows)
  with cnn_frame_bool_Some[OF assms(3)] assms(2) show ?thesis
    by (auto simp: conv_maxpool_def conv2d_valid_def Let_def length_conv_tanh)
qed

lemma conv_maxpool_fits:
  assumes "1 \<le> w" "w \<le> length v"
  shows "\<exists>h_out. conv_maxpool fs w nf Wb v =
           Inr (map_option (weighted_sum nf h_out) (cnn_frame_bool (Suc (length v) - w) v))"
  using assms
  by (auto simp: conv_maxpool_def conv2d_valid_def Let_def length_conv_tanh length_windows)

lemma pooled_outputs_length:
  "pooled_outputs fs v cfg = Inr ps \<Longrightarrow> concat_pooled ps = Some out \<Longrightarrow>
     length out = sum_list (map (\<lambda>(w, s, nf, Wb). nf) cfg)"
proof (induction cfg arbitrary: ps out)
  case Nil
  then show ?case by simp
next
  case (Cons a cfg)
  obtain w s nf Wb where a: "a = (w, s, nf, Wb)" by (cases a) auto
  from Cons.prems(1) obtain p ps' where
    p: "conv_maxpool fs w nf Wb v = Inr p" and ps': "pooled_outputs fs v cfg = Inr ps'"
    and ps: "ps = p # ps'"
    by (auto simp: a split: sum.splits)
  from Cons.prems(2) obtain x xs where
    x: "p = Some x" and xs: "concat_pooled ps' = Some xs" and out: "out = x @ xs"
    by (auto simp: ps split: option.splits)
  have "length x = nf" using p x conv_maxpool_length by blast
  moreover have "length xs = sum_list (map (\<lambda>(w, s, nf, Wb). nf) cfg)"
    using Cons.IH[OF ps' xs] .
  ultimately show ?case by (simp add: a out)
qed

lemma pooled_outputs_total:
  assumes "\<forall>(w, s, nf, Wb)\<in>set cfg. 1 \<le> w \<and> w \<le> length v \<and>
             (\<exists>fr\<in>set (take (Suc (length v) - w) v). sum_list (map abs fr) \<noteq> 0)"
  shows "\<exists>ps out. pooled_outputs fs v cfg = Inr ps \<and> concat_pooled ps = Some out"
  using assms
proof (induction cfg)
  case Nil
  then show ?case by simp
next
  case (Cons a cfg)
  obtain w s nf Wb where a: "a = (w, s, nf, Wb)" by (cases a) auto
  from Cons.prems a have "1 \<le> w" "w \<le> length v"
    "\<exists>fr\<in>set (take (Suc (length v) - w) v). sum_list (map abs fr) \<noteq> 0" by auto
  from conv_maxpool_total[OF this] obtain x where "conv_maxpool fs w nf Wb v = Inr (Some x)" by blast
  moreover from Cons obtain ps out where "pooled_outputs fs v cfg = Inr ps" "concat_pooled ps = Some out"
    by auto
  ultimately show ?case by (auto simp: a)
qed

lemma length_five:
  assumes "length xs = 5"
  obtains a b c d e where "xs = [a, b, c, d, e]"
proof -
  from assms have "length xs = Suc (Suc (Suc (Suc (Suc 0))))" by simp
  then show ?thesis using that by (auto simp: length_Suc_conv)
qed

lemma cnn_config_filters:
  assumes "length params = 5"
  shows "map (\<lambda>(w, s, nf, Wb). nf) (zip filter_sizes (zip steps (zip num_filters params))) = num_filters"
proof -
  from assms obtain a b c d e where "params = [a, b, c, d, e]" by (rule length_five)
  then show ?thesis by (simp add: filter_sizes_def steps_eval num_filters_def)
qed

lemma cnn_config_widths:
  "(w, s, nf, Wb) \<in> set (zip filter_sizes (zip steps (zip num_filters params))) \<Longrightarrow> 1 \<le> w \<and> w \<le> 20"
  by (auto dest!: set_zip_leftD simp: filter_sizes_def)

lemma CnnModel_h_drop_length:
  assumes "length params = 5" "CnnModel_h_drop params fs v = Inr (Some out)"
  shows "length out = 1100"
proof -
  from assms(2) obtain ps where ps: "pooled_outputs fs v (zip filter_sizes (zip steps (zip num_filters params))) = Inr ps"
    and out: "concat_pooled ps = Some out"
    by (auto simp: CnnModel_h_drop_def split: sum.splits)
  have "length out = sum_list num_filters"
    using pooled_outputs_length[OF ps out] cnn_config_filters[OF assms(1)] by simp
  then show ?thesis by (simp add: num_filters_def)
qed

lemma CnnModel_h_drop_total:
  assumes "20 \<le> length v" "\<exists>fr\<in>set (take (length v - 19) v). sum_list (map abs fr) \<noteq> 0"
  shows "\<exists>out. CnnModel_h_drop params fs v = Inr (Some out)"
proof -
  have "\<forall>(w, s, nf, Wb)\<in>set (zip filter_sizes (zip steps (zip num_filters params))).
          1 \<le> w \<and> w \<le> length v \<and>
          (\<exists>fr\<in>set (take (Suc (length v) - w) v). sum_list (map abs fr) \<noteq> 0)"
  proof (clarify, intro conjI)
    fix w s nf W b
    assume "(w, s, nf, W, b) \<in> set (zip filter_sizes (zip steps (zip num_filters params)))"
    then have w: "1 \<le> w \<and> w \<le> 20" by (rule cnn_config_widths)
    then show "1 \<le> w" "w \<le> length v" using assms(1) by auto
    from assms(2) obtain fr where fr: "fr \<in> set (take (length v - 19) v)" "sum_list (map abs fr) \<noteq> 0"
      by blast
    have "length v - 19 \<le> Suc (length v) - w" using w by arith
    then have "set (take (length v - 19) v) \<subseteq> set (take (Suc (length v) - w) v)"
      by (rule set_take_subset_set_take)
    with fr show "\<exists>fr\<in>set (take (Suc (length v) - w) v). sum_list (map abs fr) \<noteq> 0" by blast
  qed
  from pooled_outputs_total[OF this, of fs] obtain ps out where
    "pooled_outputs fs v (zip filter_sizes (zip steps (zip num_filters params))) = Inr ps"
    "concat_pooled ps = Some out" by blast
  then show ?thesis by (simp add: CnnModel_h_drop_def)
qed

lemma CnnModel_h_drop_last:
  assumes "CnnModel_h_drop [p0, p1, p2, p3, p4] fs v = Inr (Some out)"
  shows "\<exists>o4. conv_maxpool fs 20 100 p4 v = Inr (Some o4) \<and> last out = last o4"
proof -
  from assms obtain ps where ps: "pooled_outputs fs v (zip filter_sizes (zip steps (zip num_filters [p0, p1, p2, p3, p4]))) = Inr ps"
    and out: "concat_pooled ps = Some out"
    by (auto simp: CnnModel_h_drop_def split: sum.splits)
  from ps obtain q0 q1 q2 q3 q4 where "ps = [q0, q1, q2, q3, q4]" and q4: "conv_maxpool fs 20 100 p4 v = Inr q4"
    by (auto simp: filter_sizes_def steps_eval num_filters_def split: sum.splits)
  with out obtain o0 o1 o2 o3 o4 where o: "q4 = Some o4" "out = o0 @ o1 @ o2 @ o3 @ o4"
    by (auto split: option.splits)
  have "length o4 = 100" using q4 o(1) conv_maxpool_length by blast
  then have "o4 \<noteq> []" by auto
  then have "last out = last o4" by (simp add: o(2))
  then show ?thesis using q4 o(1) by simp
qed

lemma conv_maxpool_whole:
  assumes "length v = w" "0 < w" "0 < nf" "sum_list (map abs (hd v)) \<noteq> 0"
  shows "conv_maxpool fs w nf (W, b) v = Inr (Some o4) \<Longrightarrow>
    last o4 = tanh (sum_list (map (\<lambda>dt. sum_list (map (\<lambda>f. v ! dt ! f * W ! dt ! f ! 0 ! (nf - 1)) [0..<fs])) [0..<w]) + b ! (nf - 1))"
proof -
  assume a: "conv_maxpool fs w nf (W, b) v = Inr (Some o4)"
  obtain x xs where v: "v = x # xs" using assms(1,2) by (cases v) auto
  have fb: "cnn_frame_bool (Suc 0) v = Some [1]"
    using assms(4) sum_abs_nonneg[of x] by (simp add: v cnn_frame_bool_def frames_bool_def frames_sum_def div_reduce_sum_def)
  have win: "windows w v = [v]" using windows_whole[of v] assms by simp
  from a have "o4 = weighted_sum nf (conv_tanh nf b [map (\<lambda>c.
                  sum_list (map (\<lambda>dt.
                    sum_list (map (\<lambda>f. v ! dt ! f * W ! dt ! f ! 0 ! c) [0..<fs]))
                    [0..<w]))
                  [0..<nf]]) [1]"
    using assms(1) by (simp add: conv_maxpool_def conv2d_valid_def win Let_def length_conv_tanh fb)
  then show ?thesis using assms(3)
    by (simp add: last_weighted_sum conv_tanh_def)
qed

lemma conv_last_plane:
  fixes v :: video
  assumes "\<forall>dt<n. \<forall>f<fs. W ! dt ! f ! 0 ! c = 0"
  shows "sum_list (map (\<lambda>dt. sum_list (map (\<lambda>f. v ! dt ! f * W ! dt ! f ! 0 ! c) [0..<fs])) [0..<Suc n]) =
         sum_list (map (\<lambda>f. v ! n ! f * W ! n ! f ! 0 ! c) [0..<fs])"
proof -
  have "sum_list (map (\<lambda>f. v ! dt ! f * W ! dt ! f ! 0 ! c) [0..<fs]) = 0" if "dt < n" for dt
    using assms that by (intro sum_list_zero) auto
  then have "sum_list (map (\<lambda>dt. sum_list (map (\<lambda>f. v ! dt ! f * W ! dt ! f ! 0 ! c) [0..<fs])) [0..<n]) = 0"
    by (intro sum_list_zero) auto
  then show ?thesis by simp
qed

section \<open>The claims\<close>

text \<open>
  C1 (as amended). In every video the mask of lines 256-259, 344-347 and 465-468 is 1 at
  a frame slot exactly when the sum of the absolute feature values there is nonzero, and 0
  otherwise. When the video has at least one such slot, the weights of line 470 (mixture)
  are the mask entries divided by the mask sum, they sum to 1, and they sum to 1 over the
  nonzero slots alone; the weights of line 275 (attention) are the same vector whenever the
  frame count is nonzero (or there are no features). The weights of line 407
  (convolutional) are the first \<open>h\<close> mask entries divided by their own sum, and sum
  to 1, when one of the first \<open>h\<close> slots is nonzero.
\<close>

theorem frame_weights_sum_to_one:
  "frames_bool v = map (\<lambda>fr. if sum_list (map abs fr) \<noteq> 0 then 1 else 0) v \<and>
   ((\<exists>fr\<in>set v. sum_list (map abs fr) \<noteq> 0) \<longrightarrow>
      (\<exists>w. mix_frames_bool v = Some w \<and>
           w = map (\<lambda>m. m / sum_list (frames_bool v)) (frames_bool v) \<and>
           sum_list w = 1 \<and>
           sum_list (map snd (filter (\<lambda>(fr, x). sum_list (map abs fr) \<noteq> 0) (zip v w))) = 1 \<and>
           (feature_size = 0 \<or> num_frames \<noteq> 0 \<longrightarrow> atten W b feature_size v num_frames = Some w))) \<and>
   ((\<exists>fr\<in>set (take h v). sum_list (map abs fr) \<noteq> 0) \<longrightarrow>
      (\<exists>w. cnn_frame_bool h v = Some w \<and>
           w = map (\<lambda>m. m / sum_list (take h (frames_bool v))) (take h (frames_bool v)) \<and>
           sum_list w = 1))"
proof (intro conjI impI)
  show "frames_bool v = map (\<lambda>fr. if sum_list (map abs fr) \<noteq> 0 then 1 else 0) v"
    by (rule frames_bool_conv)
next
  assume a: "\<exists>fr\<in>set v. sum_list (map abs fr) \<noteq> 0"
  let ?w = "map (\<lambda>m. m / sum_list (frames_bool v)) (frames_bool v)"
  from div_reduce_sum_mask[OF a] have w: "div_reduce_sum (frames_bool v) = Some ?w" "sum_list ?w = 1"
    by simp_all
  have "sum_list (map snd (filter (\<lambda>(fr, x). sum_list (map abs fr) \<noteq> 0) (zip v ?w))) = 1"
    using w(2) by (simp only: sum_over_active)
  with w show "\<exists>w. mix_frames_bool v = Some w \<and>
           w = map (\<lambda>m. m / sum_list (frames_bool v)) (frames_bool v) \<and>
           sum_list w = 1 \<and>
           sum_list (map snd (filter (\<lambda>(fr, x). sum_list (map abs fr) \<noteq> 0) (zip v w))) = 1 \<and>
           (feature_size = 0 \<or> num_frames \<noteq> 0 \<longrightarrow> atten W b feature_size v num_frames = Some w)"
    by (auto simp: mix_frames_bool_def atten_eq)
next
  assume a: "\<exists>fr\<in>set (take h v). sum_list (map abs fr) \<noteq> 0"
  from div_reduce_sum_mask[OF a]
  show "\<exists>w. cnn_frame_bool h v = Some w \<and>
           w = map (\<lambda>m. m / sum_list (take h (frames_bool v))) (take h (frames_bool v)) \<and>
           sum_list w = 1"
    by (simp add: cnn_frame_bool_def take_frames_bool)
qed

text \<open>
  The statement at a video of three frames whose first frame is all zero.
\<close>

theorem frame_weights_sum_to_one_witness:
  "frames_bool [[0, 0], [1, - 2], [0, 3]] = [0, 1, 1] \<and>
   mix_frames_bool [[0, 0], [1, - 2], [0, 3]] = Some [0, 1 / 2, 1 / 2] \<and>
   atten [[1], [1], [1], [1]] [0] 2 [[0, 0], [1, - 2], [0, 3]] 3 = Some [0, 1 / 2, 1 / 2] \<and>
   cnn_frame_bool 2 [[0, 0], [1, - 2], [0, 3]] = Some [0, 1]"
  using frame_weights_sum_to_one[of "[[0, 0], [1, - 2], [0, 3]]" 2 3 "[[1], [1], [1], [1]]" "[0]" 2]
  by (simp add: frames_bool_def frames_sum_def)

text \<open>
  A video whose two frames are all zero: the mask is zero everywhere, the division of
  line 470 is 0/0 in every entry, and no weight vector that sums to 1 comes out.
\<close>

theorem frame_weights_zero_video_counterexample:
  "frames_bool [[0, 0], [0, 0]] = [0, 0] \<and> mix_frames_bool [[0, 0], [0, 0]] = None"
  by (simp add: mix_frames_bool_def div_reduce_sum_def frames_bool_def frames_sum_def)

text \<open>
  C2. The attention aggregator does not apply its softmax across the frame axis: at the
  input below (one video of two frames \<open>[1]\<close> and \<open>[2]\<close>, frame count 2, \<open>W\<close>
  reading the frame feature, \<open>b = 0\<close>) the source returns the plain mean 3/2, while the
  weights that the claim describes (softmax of the logits 1 and 2 across the two frames,
  masked and renormalised) give a different state.
\<close>

theorem attention_softmax_axis_failing_input:
  "attention_state [[1], [0]] [0] 1 [[1], [2]] 2 = Some [3 / 2] \<and>
   spec_attention_state [[1], [0]] [0] 1 [[1], [2]] 2 = Some [(exp 1 + 2 * exp 2) / (exp 1 + exp 2)] \<and>
   (exp 1 + 2 * exp 2) / (exp 1 + exp 2) \<noteq> (3 / 2 :: real)"
proof (intro conjI)
  show "attention_state [[1], [0]] [0] 1 [[1], [2]] 2 = Some [3 / 2]"
    by (simp add: attention_state_eq)
  have pos: "exp 1 + exp 2 > (0::real)" by (simp add: add_pos_pos)
  have one: "exp 1 / (exp 1 + exp 2) + exp 2 / (exp 1 + exp 2) = (1::real)"
    using pos by (simp add: add_divide_distrib[symmetric])
  have "spec_atten [[1], [0]] [0] 1 [[1], [2]] 2 = Some [exp 1 / (exp 1 + exp 2), exp 2 / (exp 1 + exp 2)]"
    by (simp add: spec_atten_def avg_pooled_def reduce_sum_frames_def
        attention_input_def xw_plus_b_def softmax_def frames_bool_def frames_sum_def div_reduce_sum_def one)
  then show "spec_attention_state [[1], [0]] [0] 1 [[1], [2]] 2 = Some [(exp 1 + 2 * exp 2) / (exp 1 + exp 2)]"
    by (simp add: spec_attention_state_def weighted_sum_def add_divide_distrib)
  show "(exp 1 + 2 * exp 2) / (exp 1 + exp 2) \<noteq> (3 / 2 :: real)"
  proof
    assume a: "(exp 1 + 2 * exp 2) / (exp 1 + exp 2) = (3 / 2 :: real)"
    from a pos have "2 * (exp 1 + 2 * exp 2) = 3 * (exp 1 + exp (2::real))"
      by (simp add: field_simps)
    then have "exp (2::real) = exp 1" by simp
    then show False by simp
  qed
qed

text \<open>
  C3 (as amended). When a video has at least one frame slot, every slot holds the same
  feature vector \<open>x\<close>, and \<open>x\<close> is not all zero, the frame-weighted sum of the
  per-frame predictions (line 483) is the per-frame prediction computed on \<open>x\<close>; line
  484 then divides that prediction by its sum over the classes.
\<close>

theorem mix_identical_frames:
  assumes "v \<noteq> []" "\<forall>fr\<in>set v. fr = x" "sum_list (map abs x) \<noteq> 0"
  shows "mix_weighted_output p feature_size vocab_size v =
           Some (mix_frame_output p feature_size vocab_size x) \<and>
         mix_output p feature_size vocab_size v =
           div_reduce_sum (mix_frame_output p feature_size vocab_size x)"
proof -
  define L where "L = length v"
  have v: "v = replicate L x" using assms(2) unfolding L_def
    by (simp add: replicate_length_same)
  have L: "0 < L" using assms(1) by (simp add: L_def)
  have fb: "frames_bool v = replicate L 1"
    using assms(3) sum_abs_nonneg[of x] by (subst v) (simp add: frames_bool_def frames_sum_def)
  have "mix_frames_bool v = Some (replicate L (1 / real L))"
    using L by (simp add: mix_frames_bool_def fb div_reduce_sum_def sum_list_replicate)
  moreover have "map (mix_frame_output p feature_size vocab_size) v =
      replicate L (mix_frame_output p feature_size vocab_size x)"
    by (subst v) simp
  ultimately have "mix_weighted_output p feature_size vocab_size v =
           Some (mix_frame_output p feature_size vocab_size x)"
    using L by (simp add: mix_weighted_output_def weighted_sum_replicate mix_frame_output_def length_fully_connected)
  then show ?thesis by (simp add: mix_output_def)
qed

text \<open>
  The statement at three copies of the frame \<open>[1, 2]\<close>.
\<close>

theorem mix_identical_frames_witness:
  "mix_weighted_output
     \<lparr>hidden_weights = [[1, 0], [0, 1]], hidden_biases = [0, 0],
      output_weights = [[1], [1]], output_biases = [0]\<rparr> 2 1 [[1, 2], [1, 2], [1, 2]] =
   Some (mix_frame_output
     \<lparr>hidden_weights = [[1, 0], [0, 1]], hidden_biases = [0, 0],
      output_weights = [[1], [1]], output_biases = [0]\<rparr> 2 1 [1, 2])"
  using mix_identical_frames[of "[[1, 2], [1, 2], [1, 2]]" "[1, 2]"
      "\<lparr>hidden_weights = [[1, 0], [0, 1]], hidden_biases = [0, 0],
        output_weights = [[1], [1]], output_biases = [0]\<rparr>" 2 1]
  by simp

text \<open>
  Two identical frames that are all zero: the mask sum is zero, the weights of line 470
  are 0/0, and the weighted sum of line 483 is not the per-frame prediction.
\<close>

theorem mix_identical_zero_frames_counterexample:
  "mix_weighted_output
     \<lparr>hidden_weights = [[1]], hidden_biases = [0], output_weights = [[1]], output_biases = [0]\<rparr>
     1 1 [[0], [0]] = None"
  by (simp add: mix_weighted_output_def mix_frames_bool_def div_reduce_sum_def frames_bool_def frames_sum_def)

text \<open>
  C4 (as amended). Replacing the frames of a video at the indices from its frame count on
  by any permutation of them leaves unchanged: the prediction of the frame-average
  logistic model, the state of the attention aggregator, the prediction of the mixture
  aggregator, the final state of the recurrent aggregator, and, for a frame count of at
  least 1 that is at most the number of slots and for fixed random draws, the sampled input
  of the bag-of-features aggregator. The convolutional aggregator is left out: its output
  can change.
\<close>

theorem padding_permutation_invariance:
  assumes "mset pad = mset (drop (nat num_frames) v)"
  shows "FrameLevelLogisticModel W' b' feature_size vocab_size (take (nat num_frames) v @ pad) num_frames =
           FrameLevelLogisticModel W' b' feature_size vocab_size v num_frames \<and>
         attention_state W b feature_size (take (nat num_frames) v @ pad) num_frames =
           attention_state W b feature_size v num_frames \<and>
         MixLogisticModel classifier p feature_size vocab_size (take (nat num_frames) v @ pad) =
           MixLogisticModel classifier p feature_size vocab_size v \<and>
         LstmModel_state stacked_lstm zero_state (take (nat num_frames) v @ pad) num_frames =
           LstmModel_state stacked_lstm zero_state v num_frames \<and>
         (0 < num_frames \<and> nat num_frames \<le> length v \<and> (\<forall>j<k. 0 \<le> draw j \<and> draw j < 1) \<longrightarrow>
            DbofModel_input s k draw u (take (nat num_frames) v @ pad) (nat num_frames) =
              DbofModel_input s k draw u v (nat num_frames))"
proof -
  have m: "mset (take (nat num_frames) v @ pad) = mset v"
    using assms by (rule padding_perm)
  show ?thesis
  proof (intro conjI impI)
    show "FrameLevelLogisticModel W' b' feature_size vocab_size (take (nat num_frames) v @ pad) num_frames =
           FrameLevelLogisticModel W' b' feature_size vocab_size v num_frames"
      using m by (rule FrameLevelLogisticModel_perm)
    show "attention_state W b feature_size (take (nat num_frames) v @ pad) num_frames =
           attention_state W b feature_size v num_frames"
      using m by (rule attention_state_perm)
    show "MixLogisticModel classifier p feature_size vocab_size (take (nat num_frames) v @ pad) =
           MixLogisticModel classifier p feature_size vocab_size v"
      using m by (rule MixLogisticModel_perm)
    show "LstmModel_state stacked_lstm zero_state (take (nat num_frames) v @ pad) num_frames =
           LstmModel_state stacked_lstm zero_state v num_frames"
      using assms by (rule lstm_padding)
  next
    assume "0 < num_frames \<and> nat num_frames \<le> length v \<and> (\<forall>j<k. 0 \<le> draw j \<and> draw j < 1)"
    then show "DbofModel_input s k draw u (take (nat num_frames) v @ pad) (nat num_frames) =
              DbofModel_input s k draw u v (nat num_frames)"
      by (intro DbofModel_input_padding) auto
  qed
qed

text \<open>
  The statement at a video of one real frame followed by the padding \<open>[2], [0]\<close>,
  swapped.
\<close>

theorem padding_permutation_invariance_witness:
  "attention_state [[1], [0]] [0] 1 [[1], [2], [0]] 1 = attention_state [[1], [0]] [0] 1 [[1], [0], [2]] 1 \<and>
   FrameLevelLogisticModel [[1]] [0] 1 1 [[1], [2], [0]] 1 = FrameLevelLogisticModel [[1]] [0] 1 1 [[1], [0], [2]] 1 \<and>
   MixLogisticModel (\<lambda>x. x)
     \<lparr>hidden_weights = [[1]], hidden_biases = [0], output_weights = [[1]], output_biases = [0]\<rparr>
     1 1 [[1], [2], [0]] =
   MixLogisticModel (\<lambda>x. x)
     \<lparr>hidden_weights = [[1]], hidden_biases = [0], output_weights = [[1]], output_biases = [0]\<rparr>
     1 1 [[1], [0], [2]] \<and>
   LstmModel_state (\<lambda>st fr. st + sum_list fr) 0 [[1], [2], [0]] 1 =
     LstmModel_state (\<lambda>st fr. st + sum_list fr) 0 [[1], [0], [2]] 1 \<and>
   DbofModel_input SampleRandomSequence 2 (\<lambda>j. 0) 0 [[1], [2], [0]] 1 =
     DbofModel_input SampleRandomSequence 2 (\<lambda>j. 0) 0 [[1], [0], [2]] 1"
  using padding_permutation_invariance[where pad = "[[2], [0]]" and num_frames = 1
          and v = "[[1], [0], [2]]" and W' = "[[1]]" and b' = "[0]" and W = "[[1], [0]]" and b = "[0]"
          and feature_size = 1 and vocab_size = 1 and classifier = "\<lambda>x. x"
          and p = "\<lparr>hidden_weights = [[1]], hidden_biases = [0], output_weights = [[1]], output_biases = [0]\<rparr>"
          and stacked_lstm = "\<lambda>st fr. st + sum_list fr" and zero_state = 0
          and k = 2 and draw = "\<lambda>j. 0" and s = SampleRandomSequence and u = 0]
  by simp

text \<open>
  The convolutional aggregator on a video of 20 slots with frame count 1. The two inputs
  have the same first frame and the same padding frames in a different order: the nonzero
  padding frame \<open>[2]\<close> is at index 19 in the first and at index 1 in the second. The
  filter of width 20 reads its last position only, and the outputs differ in their last
  entry.
\<close>

theorem CnnModel_padding_counterexample:
  "take 1 ([1] # replicate 18 [0] @ [[2::real]]) = take 1 ([1] # [2] # replicate 18 [0]) \<and>
   mset (drop 1 ([1] # replicate 18 [0] @ [[2::real]])) =
     mset (drop 1 ([1] # [2] # replicate 18 [0])) \<and>
   CnnModel_h_drop
     [(replicate 1 [[replicate 400 0]], replicate 400 0),
      (replicate 3 [[replicate 300 0]], replicate 300 0),
      (replicate 5 [[replicate 200 0]], replicate 200 0),
      (replicate 10 [[replicate 100 0]], replicate 100 0),
      (replicate 19 [[replicate 100 0]] @ [[[replicate 100 1]]], replicate 100 0)]
     1 ([1] # replicate 18 [0] @ [[2]])
   \<noteq>
   CnnModel_h_drop
     [(replicate 1 [[replicate 400 0]], replicate 400 0),
      (replicate 3 [[replicate 300 0]], replicate 300 0),
      (replicate 5 [[replicate 200 0]], replicate 200 0),
      (replicate 10 [[replicate 100 0]], replicate 100 0),
      (replicate 19 [[replicate 100 0]] @ [[[replicate 100 1]]], replicate 100 0)]
     1 ([1] # [2] # replicate 18 [0])"
  (is "_ \<and> _ \<and> CnnModel_h_drop [?p0, ?p1, ?p2, ?p3, (?W, ?b)] 1 ?v1 \<noteq> CnnModel_h_drop _ 1 ?v2")
proof (intro conjI notI)
  show "take 1 ([1] # replicate 18 [0] @ [[2::real]]) = take 1 ([1] # [2] # replicate 18 [0])"
    by simp
  show "mset (drop 1 ([1] # replicate 18 [0] @ [[2::real]])) =
     mset (drop 1 ([1] # [2] # replicate 18 [0]))"
    by simp
next
  assume eq: "CnnModel_h_drop [?p0, ?p1, ?p2, ?p3, (?W, ?b)] 1 ?v1 = CnnModel_h_drop [?p0, ?p1, ?p2, ?p3, (?W, ?b)] 1 ?v2"
  have W: "\<forall>dt<19. \<forall>f<1. ?W ! dt ! f ! 0 ! 99 = (0::real)"
    by (simp add: nth_append)
  have c1: "sum_list (map (\<lambda>dt. sum_list (map (\<lambda>f. ?v1 ! dt ! f * ?W ! dt ! f ! 0 ! 99) [0..<1])) [0..<Suc 19]) = 2"
    unfolding conv_last_plane[OF W] by (simp add: nth_append nth_Cons')
  have c2: "sum_list (map (\<lambda>dt. sum_list (map (\<lambda>f. ?v2 ! dt ! f * ?W ! dt ! f ! 0 ! 99) [0..<1])) [0..<Suc 19]) = 0"
    unfolding conv_last_plane[OF W] by (simp add: nth_append nth_Cons')
  have t1: "\<exists>out. CnnModel_h_drop [?p0, ?p1, ?p2, ?p3, (?W, ?b)] 1 ?v1 = Inr (Some out)"
    by (rule CnnModel_h_drop_total) simp_all
  then obtain out where o1: "CnnModel_h_drop [?p0, ?p1, ?p2, ?p3, (?W, ?b)] 1 ?v1 = Inr (Some out)" ..
  with eq have o2: "CnnModel_h_drop [?p0, ?p1, ?p2, ?p3, (?W, ?b)] 1 ?v2 = Inr (Some out)" by simp
  from CnnModel_h_drop_last[OF o1] obtain a where a: "conv_maxpool 1 20 100 (?W, ?b) ?v1 = Inr (Some a)" "last out = last a"
    by blast
  from CnnModel_h_drop_last[OF o2] obtain a' where a': "conv_maxpool 1 20 100 (?W, ?b) ?v2 = Inr (Some a')" "last out = last a'"
    by blast
  have "last a = tanh 2"
    using conv_maxpool_whole[OF _ _ _ _ a(1)] c1 by simp
  moreover have "last a' = tanh 0"
    using conv_maxpool_whole[OF _ _ _ _ a'(1)] c2 by simp
  ultimately have "tanh (2::real) = tanh 0" using a(2) a'(2) by simp
  then show False by simp
qed

text \<open>
  C5. A filter of width \<open>w\<close> with \<open>1 \<le> w \<le> L\<close> on a frame sequence of length
  \<open>L\<close> gives a convolution output of length \<open>L - w + 1\<close>. The five filters have
  400 + 300 + 200 + 100 + 100 channels, and the concatenated pooled vector has that length,
  1100: it exists when the video has at least 20 slots and one of the first \<open>L - 19\<close>
  is nonzero, and whenever it exists its length is 1100.
\<close>

theorem cnn_output_lengths:
  "(1 \<le> w \<and> w \<le> length v \<longrightarrow>
      (\<exists>conv. conv2d_valid feature_size w num_filter W v = Inr conv \<and>
              int (length conv) = int (length v) - int w + 1)) \<and>
   (length params = 5 \<and> 20 \<le> length v \<and>
    (\<exists>fr\<in>set (take (length v - 19) v). sum_list (map abs fr) \<noteq> 0) \<longrightarrow>
      (\<exists>out. CnnModel_h_drop params feature_size v = Inr (Some out) \<and>
             length out = sum_list num_filters)) \<and>
   (length params = 5 \<and> CnnModel_h_drop params feature_size v = Inr (Some h_drop) \<longrightarrow>
      length h_drop = 1100) \<and>
   sum_list num_filters = 400 + 300 + 200 + 100 + 100"
proof (intro conjI impI)
  assume "1 \<le> w \<and> w \<le> length v"
  then show "\<exists>conv. conv2d_valid feature_size w num_filter W v = Inr conv \<and>
              int (length conv) = int (length v) - int w + 1"
    by (intro conv2d_valid_length) auto
next
  assume a: "length params = 5 \<and> 20 \<le> length v \<and>
    (\<exists>fr\<in>set (take (length v - 19) v). sum_list (map abs fr) \<noteq> 0)"
  then obtain out where out: "CnnModel_h_drop params feature_size v = Inr (Some out)"
    using CnnModel_h_drop_total[of v params feature_size] by blast
  with a have "length out = 1100" by (intro CnnModel_h_drop_length) auto
  with out show "\<exists>out. CnnModel_h_drop params feature_size v = Inr (Some out) \<and>
             length out = sum_list num_filters"
    by (simp add: num_filters_def)
next
  assume "length params = 5 \<and> CnnModel_h_drop params feature_size v = Inr (Some h_drop)"
  then show "length h_drop = 1100" by (intro CnnModel_h_drop_length) auto
next
  show "sum_list num_filters = 400 + 300 + 200 + 100 + 100" by (simp add: num_filters_def)
qed

text \<open>
  The statement at 20 frames \<open>[1]\<close> and filters that are all zero.
\<close>

theorem cnn_output_lengths_witness:
  "(\<exists>conv. conv2d_valid 1 3 300 (replicate 3 [[replicate 300 0]]) (replicate 20 [1]) = Inr conv \<and>
           int (length conv) = 18) \<and>
   (\<exists>out. CnnModel_h_drop
       [(replicate 1 [[replicate 400 0]], replicate 400 0),
        (replicate 3 [[replicate 300 0]], replicate 300 0),
        (replicate 5 [[replicate 200 0]], replicate 200 0),
        (replicate 10 [[replicate 100 0]], replicate 100 0),
        (replicate 20 [[replicate 100 0]], replicate 100 0)] 1 (replicate 20 [1]) = Inr (Some out) \<and>
      length out = 1100)"
  using cnn_output_lengths[of 3 "replicate 20 [1]" 1 300 "replicate 3 [[replicate 300 0]]"
       "[(replicate 1 [[replicate 400 0]], replicate 400 0),
        (replicate 3 [[replicate 300 0]], replicate 300 0),
        (replicate 5 [[replicate 200 0]], replicate 200 0),
        (replicate 10 [[replicate 100 0]], replicate 100 0),
        (replicate 20 [[replicate 100 0]], replicate 100 0)]"]
  by (simp add: num_filters_def)

text \<open>
  C6 (as amended). For nonzero feature and cluster sizes, the bag-of-features aggregator
  draws its variables from zero-mean Gaussians: the cluster weights with standard
  deviation \<open>1/sqrt(feature_size)\<close>, the hidden weights with
  \<open>1/sqrt(cluster_size)\<close>; without batch normalisation also the cluster biases with
  \<open>1/sqrt(feature_size)\<close> and the hidden biases with the fixed standard deviation
  0.01; with batch normalisation there are no biases.
\<close>

theorem dbof_initializers:
  assumes "0 < feature_size" "0 < cluster_sz"
  shows "\<exists>vars. dbof_variables add_bn feature_size cluster_sz hidden1_sz = Inr vars \<and>
     map_of vars ''cluster_weights'' =
       Some \<lparr>rn_shape = [feature_size, cluster_sz], rn_mean = 0, rn_stddev = 1 / sqrt (real feature_size)\<rparr> \<and>
     map_of vars ''hidden1_weights'' =
       Some \<lparr>rn_shape = [cluster_sz, hidden1_sz], rn_mean = 0, rn_stddev = 1 / sqrt (real cluster_sz)\<rparr> \<and>
     map_of vars ''cluster_biases'' =
       (if add_bn then None
        else Some \<lparr>rn_shape = [cluster_sz], rn_mean = 0, rn_stddev = 1 / sqrt (real feature_size)\<rparr>) \<and>
     map_of vars ''hidden1_biases'' =
       (if add_bn then None else Some \<lparr>rn_shape = [hidden1_sz], rn_mean = 0, rn_stddev = 1 / 100\<rparr>) \<and>
     length vars = (if add_bn then 2 else 4)"
  using assms by (simp add: dbof_variables_def inv_sqrt_def)

text \<open>
  The statement at feature size 4, cluster size 16, hidden size 8, without batch
  normalisation.
\<close>

theorem dbof_initializers_witness:
  "\<exists>vars. dbof_variables False 4 16 8 = Inr vars \<and>
     map_of vars ''cluster_weights'' = Some \<lparr>rn_shape = [4, 16], rn_mean = 0, rn_stddev = 1 / sqrt 4\<rparr> \<and>
     map_of vars ''hidden1_weights'' = Some \<lparr>rn_shape = [16, 8], rn_mean = 0, rn_stddev = 1 / sqrt 16\<rparr> \<and>
     map_of vars ''cluster_biases'' = Some \<lparr>rn_shape = [16], rn_mean = 0, rn_stddev = 1 / sqrt 4\<rparr> \<and>
     map_of vars ''hidden1_biases'' = Some \<lparr>rn_shape = [8], rn_mean = 0, rn_stddev = 1 / 100\<rparr> \<and>
     length vars = 4"
  using dbof_initializers[of 4 16 False 8] by simp

text \<open>
  The sizes of the flag defaults, without batch normalisation: the hidden biases have
  standard deviation 0.01, which is not \<open>1/sqrt(8192)\<close>.
\<close>

theorem dbof_hidden1_biases_counterexample:
  "dbof_variables False 1024 8192 1024 =
     Inr [(''cluster_weights'', \<lparr>rn_shape = [1024, 8192], rn_mean = 0, rn_stddev = 1 / sqrt 1024\<rparr>),
          (''cluster_biases'', \<lparr>rn_shape = [8192], rn_mean = 0, rn_stddev = 1 / sqrt 1024\<rparr>),
          (''hidden1_weights'', \<lparr>rn_shape = [8192, 1024], rn_mean = 0, rn_stddev = 1 / sqrt 8192\<rparr>),
          (''hidden1_biases'', \<lparr>rn_shape = [1024], rn_mean = 0, rn_stddev = 1 / 100\<rparr>)]
   \<and> (1 / 100 :: real) \<noteq> 1 / sqrt 8192"
proof -
  have "sqrt 8192 \<noteq> 100"
  proof
    assume "sqrt 8192 = 100"
    then have "(sqrt 8192)\<^sup>2 = 100\<^sup>2" by simp
    then show False by simp
  qed
  then show ?thesis by (simp add: dbof_variables_def inv_sqrt_def)
qed




text \<open>
  C8 (as amended). When a video has at least one nonzero frame slot, the mask sum that
  line 470 (mixture) divides by is nonzero, and so is the sum that line 275 (attention)
  divides by whenever the frame count is nonzero (or there are no features). The sum that
  line 407 (convolutional) divides by is nonzero exactly when one of the first \<open>h\<close>
  slots is nonzero. A video with slots and no nonzero slot gets no weights from any of the
  three.
\<close>

theorem mask_denominators_nonzero:
  "((\<exists>fr\<in>set v. sum_list (map abs fr) \<noteq> 0) \<longrightarrow>
      sum_list (frames_bool v) \<noteq> 0 \<and>
      (feature_size = 0 \<or> num_frames \<noteq> 0 \<longrightarrow>
         (\<exists>output. attention_output W b feature_size v num_frames = Some output \<and>
                   sum_list output \<noteq> 0))) \<and>
   (sum_list (take h (frames_bool v)) \<noteq> 0 \<longleftrightarrow>
      (\<exists>fr\<in>set (take h v). sum_list (map abs fr) \<noteq> 0)) \<and>
   (v \<noteq> [] \<and> (\<forall>fr\<in>set v. sum_list (map abs fr) = 0) \<longrightarrow>
      mix_frames_bool v = None \<and> atten W b feature_size v num_frames = None \<and>
      (0 < h \<longrightarrow> cnn_frame_bool h v = None))"
proof (intro conjI impI)
  assume a: "\<exists>fr\<in>set v. sum_list (map abs fr) \<noteq> 0"
  then show nz: "sum_list (frames_bool v) \<noteq> 0" by (simp add: sum_frames_bool_zero_iff)
  assume "feature_size = 0 \<or> num_frames \<noteq> 0"
  with nz show "\<exists>output. attention_output W b feature_size v num_frames = Some output \<and>
                   sum_list output \<noteq> 0"
    by (auto simp: attention_output_eq)
next
  show "sum_list (take h (frames_bool v)) \<noteq> 0 \<longleftrightarrow>
      (\<exists>fr\<in>set (take h v). sum_list (map abs fr) \<noteq> 0)"
    by (simp add: take_frames_bool sum_frames_bool_zero_iff)
next
  assume a: "v \<noteq> [] \<and> (\<forall>fr\<in>set v. sum_list (map abs fr) = 0)"
  then have n: "div_reduce_sum (frames_bool v) = None" by (intro div_reduce_sum_no_active) auto
  then show "mix_frames_bool v = None" by (simp add: mix_frames_bool_def)
  from n show "atten W b feature_size v num_frames = None" by (simp add: atten_eq)
  assume h: "0 < h"
  have "take h v \<noteq> []" using a h by (cases v) auto
  moreover have "\<forall>fr\<in>set (take h v). sum_list (map abs fr) = 0"
    using a by (meson in_set_takeD)
  ultimately show "cnn_frame_bool h v = None"
    unfolding cnn_frame_bool_def take_frames_bool by (rule div_reduce_sum_no_active)
qed

text \<open>
  The statement at the video \<open>[0], [3]\<close> and at the all-zero video
  \<open>[0], [0]\<close>.
\<close>

theorem mask_denominators_nonzero_witness:
  "sum_list (frames_bool [[0], [3]]) = 1 \<and>
   attention_output [[1], [1]] [0] 1 [[0], [3]] 2 = Some [0, 1] \<and>
   sum_list (take 1 (frames_bool [[0], [3]])) = 0 \<and>
   mix_frames_bool [[0], [0]] = None \<and> atten [[1], [1]] [0] 1 [[0], [0]] 2 = None \<and>
   cnn_frame_bool 1 [[0], [0]] = None"
  using mask_denominators_nonzero[of "[[0], [3]]" 1 2 "[[1], [1]]" "[0]" 1]
        mask_denominators_nonzero[of "[[0], [0]]" 1 2 "[[1], [1]]" "[0]" 1]
  by (simp add: frames_bool_def frames_sum_def attention_output_eq)

text \<open>
  A video of 20 slots whose only nonzero frame is the last one: the filters of width 3,
  5, 10 and 20 divide by the sum of the first 18, 16, 11 and 1 mask entries, which is
  zero, and the pooled vector of the convolutional aggregator is not a vector of numbers.
\<close>

theorem cnn_denominator_counterexample:
  "sum_list (map abs ((replicate 19 [0] @ [[1::real]]) ! 19)) \<noteq> 0 \<and>
   cnn_denominators (replicate 19 [0] @ [[1]]) = [1, 0, 0, 0, 0] \<and>
   CnnModel_h_drop
     [(replicate 1 [[replicate 400 0]], replicate 400 0),
      (replicate 3 [[replicate 300 0]], replicate 300 0),
      (replicate 5 [[replicate 200 0]], replicate 200 0),
      (replicate 10 [[replicate 100 0]], replicate 100 0),
      (replicate 20 [[replicate 100 0]], replicate 100 0)]
     1 (replicate 19 [0] @ [[1]]) = Inr None"
  (is "_ \<and> _ \<and> CnnModel_h_drop [?p0, ?p1, ?p2, ?p3, ?p4] 1 ?v = _")
proof (intro conjI)
  show "sum_list (map abs ((replicate 19 [0] @ [[1::real]]) ! 19)) \<noteq> 0"
    by (simp add: nth_append)
  show "cnn_denominators ?v = [1, 0, 0, 0, 0]"
    by (simp add: cnn_denominators_def filter_sizes_def length_windows sum_frames_bool_take)
  have none: "cnn_frame_bool (Suc (length ?v) - 3) ?v = None"
    unfolding cnn_frame_bool_def take_frames_bool
    by (rule div_reduce_sum_no_active) simp_all
  obtain q0 where h0: "conv_maxpool 1 1 400 ?p0 ?v = Inr q0"
    using conv_maxpool_fits[of 1 ?v 1 400 ?p0] by auto
  obtain h1 where h1: "conv_maxpool 1 3 300 ?p1 ?v = Inr None"
    using conv_maxpool_fits[of 3 ?v 1 300 ?p1] unfolding none by auto
  obtain q2 where h2: "conv_maxpool 1 5 200 ?p2 ?v = Inr q2"
    using conv_maxpool_fits[of 5 ?v 1 200 ?p2] by auto
  obtain q3 where h3: "conv_maxpool 1 10 100 ?p3 ?v = Inr q3"
    using conv_maxpool_fits[of 10 ?v 1 100 ?p3] by auto
  obtain q4 where h4: "conv_maxpool 1 20 100 ?p4 ?v = Inr q4"
    using conv_maxpool_fits[of 20 ?v 1 100 ?p4] by auto
  show "CnnModel_h_drop [?p0, ?p1, ?p2, ?p3, ?p4] 1 ?v = Inr None"
    using h0 h1 h2 h3 h4
    by (simp add: CnnModel_h_drop_def filter_sizes_def steps_eval num_filters_def split: option.splits)
qed

text \<open>
  C9. Each optional argument of \<^verbatim>\<open>DbofModel.create_model\<close> that is falsy
  (\<^verbatim>\<open>False\<close>, 0 and \<^verbatim>\<open>None\<close> are) is replaced by the value of its flag. So
  \<^verbatim>\<open>add_batch_norm=False\<close> with the flag true still takes the batch-normalisation
  branch, and \<^verbatim>\<open>sample_random_frames=False\<close> with the flag true still samples
  independent frames.
\<close>

theorem dbof_falsy_arguments:
  "(\<not> truthy (arg_iterations a) \<longrightarrow> iterations (dbof_resolve F a) = PyInt (flag_iterations F)) \<and>
   (\<not> truthy (arg_add_batch_norm a) \<longrightarrow> add_batch_norm (dbof_resolve F a) = PyBool (flag_dbof_add_batch_norm F)) \<and>
   (\<not> truthy (arg_sample_random_frames a) \<longrightarrow> random_frames (dbof_resolve F a) = PyBool (flag_sample_random_frames F)) \<and>
   (\<not> truthy (arg_cluster_size a) \<longrightarrow> cluster_size (dbof_resolve F a) = PyInt (flag_dbof_cluster_size F)) \<and>
   (\<not> truthy (arg_hidden_size a) \<longrightarrow> hidden1_size (dbof_resolve F a) = PyInt (flag_dbof_hidden_size F)) \<and>
   \<not> truthy (PyBool False) \<and> \<not> truthy (PyInt 0) \<and> \<not> truthy PyNone \<and>
   (arg_add_batch_norm a = PyBool False \<and> flag_dbof_add_batch_norm F \<longrightarrow> dbof_batch_norm (dbof_resolve F a)) \<and>
   (arg_sample_random_frames a = PyBool False \<and> flag_sample_random_frames F \<longrightarrow>
      dbof_sampler (dbof_resolve F a) = SampleRandomFrames)"
  by (simp add: dbof_resolve_def py_or_def dbof_batch_norm_def dbof_sampler_def)

text \<open>
  The statement at the flag defaults, with every argument falsy.
\<close>

theorem dbof_falsy_arguments_witness:
  "dbof_resolve
     \<lparr>flag_iterations = 30, flag_dbof_add_batch_norm = True, flag_sample_random_frames = True,
      flag_dbof_cluster_size = 8192, flag_dbof_hidden_size = 1024\<rparr>
     \<lparr>arg_iterations = PyInt 0, arg_add_batch_norm = PyBool False,
      arg_sample_random_frames = PyBool False, arg_cluster_size = PyNone,
      arg_hidden_size = PyNone\<rparr> =
   \<lparr>iterations = PyInt 30, add_batch_norm = PyBool True, random_frames = PyBool True,
    cluster_size = PyInt 8192, hidden1_size = PyInt 1024\<rparr> \<and>
   dbof_batch_norm (dbof_resolve
     \<lparr>flag_iterations = 30, flag_dbof_add_batch_norm = True, flag_sample_random_frames = True,
      flag_dbof_cluster_size = 8192, flag_dbof_hidden_size = 1024\<rparr>
     \<lparr>arg_iterations = PyInt 0, arg_add_batch_norm = PyBool False,
      arg_sample_random_frames = PyBool False, arg_cluster_size = PyNone,
      arg_hidden_size = PyNone\<rparr>) \<and>
   dbof_sampler (dbof_resolve
     \<lparr>flag_iterations = 30, flag_dbof_add_batch_norm = True, flag_sample_random_frames = True,
      flag_dbof_cluster_size = 8192, flag_dbof_hidden_size = 1024\<rparr>
     \<lparr>arg_iterations = PyInt 0, arg_add_batch_norm = PyBool False,
      arg_sample_random_frames = PyBool False, arg_cluster_size = PyNone,
      arg_hidden_size = PyNone\<rparr>) = SampleRandomFrames"
  using dbof_falsy_arguments[of
     "\<lparr>arg_iterations = PyInt 0, arg_add_batch_norm = PyBool False,
      arg_sample_random_frames = PyBool False, arg_cluster_size = PyNone,
      arg_hidden_size = PyNone\<rparr>"
     "\<lparr>flag_iterations = 30, flag_dbof_add_batch_norm = True, flag_sample_random_frames = True,
      flag_dbof_cluster_size = 8192, flag_dbof_hidden_size = 1024\<rparr>"]
  by (simp add: dbof_resolve_def py_or_def)

text \<open>
  C10. The softmax of line 273 runs over rows of one entry, so every weight before the
  mask is 1. The attention weights are 1/n on the n nonzero frame slots and 0 elsewhere,
  the state is the plain mean of the nonzero frames, and the state is the same for any two
  values of \<open>W\<close> and \<open>b\<close>. (No weights and no state come out when the features
  are divided by a zero frame count, or when the video has slots and none is nonzero.)
\<close>

theorem attention_weights_uniform:
  "attention_softmax W b rows = replicate (length rows) [1] \<and>
   atten W b feature_size v num_frames =
     (if (feature_size \<noteq> 0 \<and> num_frames = 0) \<or>
         (v \<noteq> [] \<and> (\<forall>fr\<in>set v. sum_list (map abs fr) = 0)) then None
      else Some (map (\<lambda>fr. if sum_list (map abs fr) \<noteq> 0
                           then 1 / real (length (filter (\<lambda>fr. sum_list (map abs fr) \<noteq> 0) v))
                           else 0) v)) \<and>
   attention_state W b feature_size v num_frames =
     (if (feature_size \<noteq> 0 \<and> num_frames = 0) \<or>
         (v \<noteq> [] \<and> (\<forall>fr\<in>set v. sum_list (map abs fr) = 0)) then None
      else Some (map (\<lambda>f. sum_list (map (\<lambda>fr. fr ! f) (filter (\<lambda>fr. sum_list (map abs fr) \<noteq> 0) v))
                         / real (length (filter (\<lambda>fr. sum_list (map abs fr) \<noteq> 0) v)))
                   [0..<feature_size])) \<and>
   attention_state W b feature_size v num_frames = attention_state W' b' feature_size v num_frames"
proof (intro conjI)
  show "attention_state W b feature_size v num_frames = attention_state W' b' feature_size v num_frames"
    unfolding attention_state_eq ..
qed (rule attention_softmax_eq atten_uniform attention_state_eq)+

text \<open>
  The statement at the video \<open>[1], [0], [3]\<close>.
\<close>

theorem attention_weights_uniform_witness:
  "attention_softmax [[5], [7]] [1] [[1, 2], [0, 2], [3, 2]] = [[1], [1], [1]] \<and>
   atten [[5], [7]] [1] 1 [[1], [0], [3]] 3 = Some [1 / 2, 0, 1 / 2] \<and>
   attention_state [[5], [7]] [1] 1 [[1], [0], [3]] 3 = Some [2] \<and>
   attention_state [[5], [7]] [1] 1 [[1], [0], [3]] 3 = attention_state [[0], [0]] [0] 1 [[1], [0], [3]] 3"
  using attention_weights_uniform[of "[[5], [7]]" "[1]" "[[1, 2], [0, 2], [3, 2]]" 1 "[[1], [0], [3]]" 3 "[[0], [0]]" "[0]"]
  by auto

end
